theory Spec2Isabelle
  imports Complex_Main "HOL-Library.Word"
begin

section \<open>The deposit/withdrawal agent of main.go\<close>

text \<open>
  main.go is glue around the solana-go library: every step of \<open>withdraw\<close> and of
  \<open>monitorDeposits\<close> is a call into the library or into the RPC / websocket gateway.
  None of that code is part of the program, so the library and the gateway are
  parameters of the model (records of functions over opaque types), as are the two
  floating-point operations of line 106, and every run of a function of main.go yields
  the ordered list of the calls it made and the lines it printed (its trace) together
  with the way it ended.

  Type variables: \<open>'sk\<close> private keys, \<open>'pk\<close> public keys, \<open>'h\<close> block hashes,
  \<open>'tx\<close> transactions, \<open>'sg\<close> transaction signatures as returned by the gateway,
  \<open>'e\<close> Go error values.
\<close>

subsection \<open>Types of the language and the library\<close>

type_synonym uint64 = "64 word"

text \<open>The commitment levels of package rpc; main.go only ever names \<open>rpc.CommitmentFinalized\<close>.\<close>

datatype commitment = CommitmentProcessed | CommitmentConfirmed | CommitmentFinalized

text \<open>\<open>rpc.TransactionOpts\<close>: the two fields main.go sets (the others keep their zero value).\<close>

record TransactionOpts =
  SkipPreflight :: bool
  PreflightCommitment :: commitment

text \<open>\<open>system.NewTransferInstruction(lamports, from, to).Build()\<close>: the call and its arguments.\<close>

datatype 'pk instruction =
  NewTransferInstruction (TransferLamports: uint64) (FundingAccount: 'pk) (RecipientAccount: 'pk)

text \<open>\<open>solana.TransactionPayer(key)\<close>, the only transaction option main.go passes.\<close>

datatype 'pk TransactionOption = TransactionPayer 'pk

text \<open>The account state delivered by a subscription; main.go reads \<open>result.Value.Lamports\<close> only.\<close>

record AccountResult =
  Lamports :: uint64

text \<open>A finite binary64 value is a rational number.\<close>

type_synonym float64 = rat

subsection \<open>The gateway and the library as parameters\<close>

text \<open>
  A Go call returning \<open>(value, err)\<close> is a function into \<open>'e + value\<close>, \<open>Inl\<close> the error.
  \<open>GetRecentBlockhash\<close> stands for the call followed by the selection \<open>recent.Value.Blockhash\<close>.
  The \<open>context.Background()\<close> argument of the gateway calls is a constant and is left out.
\<close>

record ('h, 'tx, 'sg, 'e) rpc_client =
  GetRecentBlockhash :: "commitment \<Rightarrow> 'e + 'h"
  SendTransactionWithOpts :: "'tx \<Rightarrow> TransactionOpts \<Rightarrow> 'e + 'sg"

text \<open>
  The floating-point operations of line 106, \<open>float64(lamports) / LamportsPerSOL\<close>: the
  conversion of a \<open>uint64\<close> to binary64 and the binary64 division. Both round, so they are
  parameters too: nothing is assumed about how they round, and in particular not that
  different lamport balances give different values.
\<close>

record go_float =
  float64 :: "uint64 \<Rightarrow> float64"
  float64_div :: "float64 \<Rightarrow> float64 \<Rightarrow> float64"

text \<open>
  A subscription handle is represented by the results that its successive \<open>Recv\<close> calls
  return during the part of the run that is observed; after the last of them the next
  \<open>Recv\<close> has not returned yet.
\<close>

type_synonym 'e subscription = "('e + AccountResult) list"

record ('pk, 'e) ws_client =
  AccountSubscribe :: "'pk \<Rightarrow> commitment \<Rightarrow> 'e + 'e subscription"

text \<open>
  The functions of package solana (and \<open>rpc.New\<close>, \<open>ws.Connect\<close>) that main.go calls.
  \<open>Sign\<close> is \<open>tx.Sign(getter)\<close>: it changes the transaction in place, so on success the
  model returns the transaction as it is afterwards (the returned signature slice is
  discarded by main.go).
\<close>

record ('sk, 'pk, 'h, 'tx, 'sg, 'e) solana =
  NewRandomPrivateKey :: "'e + 'sk"
  PublicKey :: "'sk \<Rightarrow> 'pk"
  PublicKeyFromBase58 :: "string \<Rightarrow> 'e + 'pk"
  NewTransaction :: "'pk instruction list \<Rightarrow> 'h \<Rightarrow> 'pk TransactionOption list \<Rightarrow> 'e + 'tx"
  Sign :: "'tx \<Rightarrow> ('pk \<Rightarrow> 'sk option) \<Rightarrow> 'e + 'tx"
  rpc_New :: "string \<Rightarrow> ('h, 'tx, 'sg, 'e) rpc_client"
  ws_Connect :: "string \<Rightarrow> 'e + ('pk, 'e) ws_client"

subsection \<open>Traces and outcomes\<close>

text \<open>
  The format strings of the \<open>log.Fatalf\<close> calls, by source line:
  25 (key generation), 35 (block hash), 51 (transaction construction), 64 (signing),
  77 (submission), 91 (subscription), 116 (websocket connection), 124 (receiver key).
\<close>

datatype fatal_message =
    KeypairFailed
  | BlockhashFailed
  | CreateTransactionFailed
  | SignTransactionFailed
  | SendTransactionFailed
  | SubscribeFailed
  | ConnectFailed
  | InvalidReceiver

text \<open>
  What a run does that is visible outside it: the library and gateway calls with their
  arguments, \<open>log.Fatalf\<close> (prints and ends the process with \<open>os.Exit(1)\<close>), the
  \<open>log.Printf\<close> of line 100, and the four \<open>fmt.Printf\<close> lines (80, 95, 107, 127)
  with the values they format. The balance that line 107 formats (with \<open>%.9f\<close>) is the
  binary64 value \<open>sol\<close> of line 106, not the lamports of the notification.
\<close>

datatype ('sk, 'pk, 'h, 'tx, 'sg, 'e) event =
    CallGetRecentBlockhash commitment
  | CallNewTransaction "'pk instruction list" 'h "'pk TransactionOption list"
  | CallSign 'tx "'pk \<Rightarrow> 'sk option"
  | CallSendTransactionWithOpts 'tx TransactionOpts
  | CallNewRandomPrivateKey
  | CallPublicKeyFromBase58 string
  | CallConnect string
  | CallAccountSubscribe 'pk commitment
  | CallRecv
  | CallUnsubscribe
  | Fatalf fatal_message 'e
  | LogRecvFailed 'e
  | PrintfWithdrawOk 'sg
  | PrintfMonitorStart 'pk
  | PrintfAccountUpdate 'pk float64
  | PrintfSender 'pk

text \<open>
  \<open>Returned\<close>: the function returned to its caller. \<open>Aborted\<close>: \<open>log.Fatalf\<close> ended the
  process. \<open>Suspended\<close>: the function is inside a \<open>Recv\<close> that has not returned.
\<close>

datatype outcome = Returned | Aborted | Suspended

record ('sk, 'pk, 'h, 'tx, 'sg, 'e) run =
  trace :: "('sk, 'pk, 'h, 'tx, 'sg, 'e) event list"
  outcome :: outcome

subsection \<open>Constants (lines 15-19)\<close>

definition rpcURL :: string where
  "rpcURL = ''https://api.mainnet-beta.solana.com''"

definition wsURL :: string where
  "wsURL = ''wss://api.mainnet-beta.solana.com''"

text \<open>
  \<open>LamportsPerSOL\<close> is an untyped Go constant. Constant expressions are evaluated exactly,
  so the constant and the arithmetic on it are rational numbers.
\<close>

definition LamportsPerSOL :: rat where
  "LamportsPerSOL = 1000000000"

text \<open>
  The conversion \<open>uint64(c)\<close> of a constant \<open>c\<close>: accepted by the compiler only when \<open>c\<close>
  is an integer in the range of the type (\<open>None\<close>: the program is rejected).
\<close>

definition uint64_const :: "rat \<Rightarrow> uint64 option" where
  "uint64_const c =
     (if rat_of_int \<lfloor>c\<rfloor> = c \<and> 0 \<le> c \<and> c < 2 ^ 64 then Some (word_of_int \<lfloor>c\<rfloor>) else None)"

text \<open>Line 130: \<open>amount := uint64(0.1 * LamportsPerSOL)\<close>.\<close>

definition main_amount :: "uint64 option" where
  "main_amount = uint64_const (0.1 * LamportsPerSOL)"

subsection \<open>generateKeypair (lines 22-28)\<close>

text \<open>The result is the trace and the key, \<open>None\<close> when \<open>log.Fatalf\<close> ended the process.\<close>

definition generateKeypair ::
  "('sk, 'pk, 'h, 'tx, 'sg, 'e) solana \<Rightarrow> ('sk, 'pk, 'h, 'tx, 'sg, 'e) event list \<times> 'sk option" where
  "generateKeypair solana =
     (case NewRandomPrivateKey solana of
        Inl err \<Rightarrow> ([CallNewRandomPrivateKey, Fatalf KeypairFailed err], None)
      | Inr privateKey \<Rightarrow> ([CallNewRandomPrivateKey], Some privateKey))"

subsection \<open>withdraw (lines 31-81)\<close>

text \<open>
  \<open>fromPrivateKey\<close> is the key the pointer refers to (\<open>generateKeypair\<close> never returns nil).
  The function has no result value: it either returns after printing line 80 or ends the
  process in one of its four \<open>log.Fatalf\<close> calls.
\<close>

definition withdraw ::
  "('sk, 'pk, 'h, 'tx, 'sg, 'e) solana \<Rightarrow> ('h, 'tx, 'sg, 'e) rpc_client \<Rightarrow> 'sk \<Rightarrow> 'pk \<Rightarrow> uint64
     \<Rightarrow> ('sk, 'pk, 'h, 'tx, 'sg, 'e) run" where
  "withdraw solana client fromPrivateKey toPublicKey amount =
     (let t1 = [CallGetRecentBlockhash CommitmentFinalized] in
      case GetRecentBlockhash client CommitmentFinalized of
        Inl err \<Rightarrow> \<lparr>trace = t1 @ [Fatalf BlockhashFailed err], outcome = Aborted\<rparr>
      | Inr recent \<Rightarrow>
          (let instructions =
                 [NewTransferInstruction amount (PublicKey solana fromPrivateKey) toPublicKey];
               opts = [TransactionPayer (PublicKey solana fromPrivateKey)];
               t2 = t1 @ [CallNewTransaction instructions recent opts] in
           case NewTransaction solana instructions recent opts of
             Inl err \<Rightarrow> \<lparr>trace = t2 @ [Fatalf CreateTransactionFailed err], outcome = Aborted\<rparr>
           | Inr tx \<Rightarrow>
               (let getter = (\<lambda>key. if key = PublicKey solana fromPrivateKey
                                     then Some fromPrivateKey else None);
                    t3 = t2 @ [CallSign tx getter] in
                case Sign solana tx getter of
                  Inl err \<Rightarrow> \<lparr>trace = t3 @ [Fatalf SignTransactionFailed err], outcome = Aborted\<rparr>
                | Inr signedTx \<Rightarrow>
                    (let topts = \<lparr>SkipPreflight = False,
                                  PreflightCommitment = CommitmentFinalized\<rparr>;
                         t4 = t3 @ [CallSendTransactionWithOpts signedTx topts] in
                     case SendTransactionWithOpts client signedTx topts of
                       Inl err \<Rightarrow>
                         \<lparr>trace = t4 @ [Fatalf SendTransactionFailed err], outcome = Aborted\<rparr>
                     | Inr sig \<Rightarrow>
                         \<lparr>trace = t4 @ [PrintfWithdrawOk sig], outcome = Returned\<rparr>))))"

subsection \<open>monitorDeposits (lines 84-109)\<close>

text \<open>
  The \<open>for\<close> loop of lines 97-108, run on the results that the \<open>Recv\<close> calls return, with
  the trace so far as its state. An error is logged and the loop continues (line 101); for
  a result, the lamports are converted to binary64 and divided by \<open>LamportsPerSOL\<close> (the
  constant 1000000000 is a binary64 value), and the quotient is printed (lines 105-107).
  The loop has no \<open>break\<close> and no \<open>return\<close>: when the delivered results are used up it is
  inside the next \<open>Recv\<close>, which is called with \<open>context.Background()\<close> and so cannot be
  cancelled through its context.
\<close>

fun recv_loop ::
  "go_float \<Rightarrow> 'pk \<Rightarrow> 'e subscription \<Rightarrow> ('sk, 'pk, 'h, 'tx, 'sg, 'e) event list
     \<Rightarrow> ('sk, 'pk, 'h, 'tx, 'sg, 'e) run" where
  "recv_loop go account [] t = \<lparr>trace = t @ [CallRecv], outcome = Suspended\<rparr>"
| "recv_loop go account (Inl err # sub) t =
     recv_loop go account sub (t @ [CallRecv, LogRecvFailed err])"
| "recv_loop go account (Inr result # sub) t =
     (let lamports = Lamports result;
          sol = float64_div go (float64 go lamports) LamportsPerSOL
      in recv_loop go account sub (t @ [CallRecv, PrintfAccountUpdate account sol]))"

text \<open>
  \<open>defer sub.Unsubscribe()\<close> (line 93): the call is made when the surrounding function
  returns, and only then (not while it is suspended, not when \<open>log.Fatalf\<close> exits).
\<close>

definition defer_Unsubscribe ::
  "('sk, 'pk, 'h, 'tx, 'sg, 'e) run \<Rightarrow> ('sk, 'pk, 'h, 'tx, 'sg, 'e) run" where
  "defer_Unsubscribe r =
     (if outcome r = Returned then r\<lparr>trace := trace r @ [CallUnsubscribe]\<rparr> else r)"

definition monitorDeposits ::
  "go_float \<Rightarrow> ('pk, 'e) ws_client \<Rightarrow> 'pk \<Rightarrow> ('sk, 'pk, 'h, 'tx, 'sg, 'e) run" where
  "monitorDeposits go wsClient account =
     (let t1 = [CallAccountSubscribe account CommitmentFinalized] in
      case AccountSubscribe wsClient account CommitmentFinalized of
        Inl err \<Rightarrow> \<lparr>trace = t1 @ [Fatalf SubscribeFailed err], outcome = Aborted\<rparr>
      | Inr sub \<Rightarrow>
          defer_Unsubscribe (recv_loop go account sub (t1 @ [PrintfMonitorStart account])))"

subsection \<open>main, up to the launch of the two activities (lines 112-127)\<close>

text \<open>
  The start of \<open>main\<close>: connect, generate the sender, parse the receiver, print the sender.
  The result is the trace and, unless \<open>log.Fatalf\<close> ended the process, the clients and keys
  with which \<open>withdraw\<close> (as a goroutine, with the amount of line 130) and \<open>monitorDeposits\<close>
  are then started. The deferred \<open>wsClient.Close()\<close> of line 118 belongs to the return of
  \<open>main\<close>, after the part modelled here.
\<close>

record ('sk, 'pk, 'h, 'tx, 'sg, 'e) launch =
  main_rpcClient :: "('h, 'tx, 'sg, 'e) rpc_client"
  main_wsClient :: "('pk, 'e) ws_client"
  main_sender :: 'sk
  main_receiverPubKey :: 'pk

definition main_startup ::
  "('sk, 'pk, 'h, 'tx, 'sg, 'e) solana
     \<Rightarrow> ('sk, 'pk, 'h, 'tx, 'sg, 'e) event list \<times> ('sk, 'pk, 'h, 'tx, 'sg, 'e) launch option" where
  "main_startup solana =
     (let rpcC = rpc_New solana rpcURL;
          t1 = [CallConnect wsURL] in
      case ws_Connect solana wsURL of
        Inl err \<Rightarrow> (t1 @ [Fatalf ConnectFailed err], None)
      | Inr wsC \<Rightarrow>
          (case generateKeypair solana of
             (tk, None) \<Rightarrow> (t1 @ tk, None)
           | (tk, Some sk) \<Rightarrow>
               (let t2 = t1 @ tk @ [CallPublicKeyFromBase58 ''RECIPIENT_PUBLIC_KEY_HERE''] in
                case PublicKeyFromBase58 solana ''RECIPIENT_PUBLIC_KEY_HERE'' of
                  Inl err \<Rightarrow> (t2 @ [Fatalf InvalidReceiver err], None)
                | Inr pk \<Rightarrow>
                    (t2 @ [PrintfSender (PublicKey solana sk)],
                     Some \<lparr>main_rpcClient = rpcC, main_wsClient = wsC,
                           main_sender = sk, main_receiverPubKey = pk\<rparr>))))"

subsection \<open>Observations on traces\<close>

text \<open>The transaction constructions, signing calls and submissions of a trace, in order.\<close>

fun constructions ::
  "('sk, 'pk, 'h, 'tx, 'sg, 'e) event list
     \<Rightarrow> ('pk instruction list \<times> 'h \<times> 'pk TransactionOption list) list" where
  "constructions [] = []"
| "constructions (CallNewTransaction ins h os # t) = (ins, h, os) # constructions t"
| "constructions (_ # t) = constructions t"

fun submissions ::
  "('sk, 'pk, 'h, 'tx, 'sg, 'e) event list \<Rightarrow> ('tx \<times> TransactionOpts) list" where
  "submissions [] = []"
| "submissions (CallSendTransactionWithOpts tx os # t) = (tx, os) # submissions t"
| "submissions (_ # t) = submissions t"

text \<open>The balance updates printed (line 107) and the receive errors logged (line 100), in order.\<close>

fun account_updates ::
  "('sk, 'pk, 'h, 'tx, 'sg, 'e) event list \<Rightarrow> ('pk \<times> float64) list" where
  "account_updates [] = []"
| "account_updates (PrintfAccountUpdate a l # t) = (a, l) # account_updates t"
| "account_updates (_ # t) = account_updates t"

fun recv_reports :: "('sk, 'pk, 'h, 'tx, 'sg, 'e) event list \<Rightarrow> 'e list" where
  "recv_reports [] = []"
| "recv_reports (LogRecvFailed err # t) = err # recv_reports t"
| "recv_reports (_ # t) = recv_reports t"

text \<open>The commitment level an event names, if it names one.\<close>

fun commitment_of :: "('sk, 'pk, 'h, 'tx, 'sg, 'e) event \<Rightarrow> commitment option" where
  "commitment_of (CallGetRecentBlockhash c) = Some c"
| "commitment_of (CallSendTransactionWithOpts tx os) = Some (PreflightCommitment os)"
| "commitment_of (CallAccountSubscribe a c) = Some c"
| "commitment_of _ = None"

text \<open>The results and the errors among what the \<open>Recv\<close> calls of a subscription return, in order.\<close>

fun delivered :: "'e subscription \<Rightarrow> AccountResult list" where
  "delivered [] = []"
| "delivered (Inl err # sub) = delivered sub"
| "delivered (Inr result # sub) = result # delivered sub"

fun failed :: "'e subscription \<Rightarrow> 'e list" where
  "failed [] = []"
| "failed (Inl err # sub) = err # failed sub"
| "failed (Inr result # sub) = failed sub"

subsection \<open>The construction and signing steps of the library\<close>

text \<open>
  \<open>solana.NewTransaction\<close> and \<open>Transaction.Sign\<close> belong to the library, and no source
  of them is part of the program. Where a property needs to look inside the transaction
  that they produce, they are modelled from sections 3, 4.2 and 7 of the specification.
\<close>

text \<open>
  Modelled from the spec: the error values of the library are missing. Section 7: the
  failure kinds.
\<close>

datatype failure =
    IdentityGenerationFailure
  | ReferenceUnavailable
  | MalformedTransaction
  | SigningKeyMismatch
  | SubmissionRejected
  | NotificationDecodeError
  | SubscriptionTransportError

text \<open>
  Modelled from the spec: the signature type of the library is missing. Section 3: a
  signature is produced by private material; it is identified here by that material.
\<close>

datatype 'sk signature = SignedBy 'sk

text \<open>
  Modelled from the spec: the transaction type of the library is missing. Section 3,
  SignedTransaction: instructions, payer identity, block reference, signatures.
\<close>

record ('sk, 'pk, 'h) SignedTransaction =
  instructions :: "'pk instruction list"
  payer :: 'pk
  blockReference :: 'h
  signatures :: "'sk signature list"

text \<open>
  Modelled from the spec: \<open>solana.NewTransaction\<close> is missing. Section 4.2, step 3: assemble
  the envelope from the instruction list, the block reference and the designated fee payer;
  \<open>MalformedTransaction\<close> when the instruction or payer invariants are violated (an empty
  instruction list, no payer). The envelope is unsigned.
\<close>

fun spec_NewTransaction ::
  "'pk instruction list \<Rightarrow> 'h \<Rightarrow> 'pk TransactionOption list
     \<Rightarrow> failure + ('sk, 'pk, 'h) SignedTransaction" where
  "spec_NewTransaction [] h os = Inl MalformedTransaction"
| "spec_NewTransaction ins h [] = Inl MalformedTransaction"
| "spec_NewTransaction ins h (TransactionPayer p # os) =
     Inr \<lparr>instructions = ins, payer = p, blockReference = h, signatures = []\<rparr>"

text \<open>
  Modelled from the spec: \<open>Transaction.Sign\<close> is missing. Section 4.2, step 4: the envelope
  is signed with the private material matching the declared payer identity, which the
  signing step asks its key getter for; when the getter has no key for the payer, or
  supplies a key of another identity, the step fails with \<open>SigningKeyMismatch\<close> and no
  transaction results. \<open>pub\<close> derives the public identity of a private key.
\<close>

definition spec_Sign ::
  "('sk \<Rightarrow> 'pk) \<Rightarrow> ('sk, 'pk, 'h) SignedTransaction \<Rightarrow> ('pk \<Rightarrow> 'sk option)
     \<Rightarrow> failure + ('sk, 'pk, 'h) SignedTransaction" where
  "spec_Sign pub tx getter =
     (case getter (payer tx) of
        None \<Rightarrow> Inl SigningKeyMismatch
      | Some privateKey \<Rightarrow>
          (if pub privateKey = payer tx
           then Inr (tx\<lparr>signatures := [SignedBy privateKey]\<rparr>)
           else Inl SigningKeyMismatch))"

text \<open>A library whose construction and signing steps are the two modelled ones.\<close>

definition spec_solana ::
  "('sk, 'pk, 'h, ('sk, 'pk, 'h) SignedTransaction, 'sg, failure) solana
     \<Rightarrow> ('sk, 'pk, 'h, ('sk, 'pk, 'h) SignedTransaction, 'sg, failure) solana" where
  "spec_solana solana =
     solana\<lparr>NewTransaction := spec_NewTransaction, Sign := spec_Sign (PublicKey solana)\<rparr>"

subsection \<open>What the websocket client delivers\<close>

text \<open>
  The websocket client of solana-go (package ws, imported at line 11) is not part of
  main.go. This is what it does with the notifications that arrive for one subscription,
  each either a payload that decodes to an account state or one that fails to decode: a
  decoded state is handed to the next \<open>Recv\<close>; at the first payload that fails to decode,
  the error is handed to the next \<open>Recv\<close> and the client closes the subscription, so
  nothing that arrives later is delivered and the \<open>Recv\<close> after the error does not return.
\<close>

fun ws_delivery :: "('e + AccountResult) list \<Rightarrow> 'e subscription" where
  "ws_delivery [] = []"
| "ws_delivery (Inr result # arriving) = Inr result # ws_delivery arriving"
| "ws_delivery (Inl err # arriving) = [Inl err]"

subsection \<open>Gateway stubs for the concrete scenarios\<close>

text \<open>
  Keys and block hashes are numbers; the public key of private key \<open>k\<close> is \<open>k + 100\<close>.
  The gateway stub answers every block-hash request with 7 and accepts every submission
  with the signature \<open>sig123\<close> (section 8 of the specification). The library stub
  constructs and signs as modelled above; its variants fail in one step each.
\<close>

type_synonym stub_tx = "(nat, nat, nat) SignedTransaction"

definition stub_client :: "(nat, stub_tx, string, failure) rpc_client" where
  "stub_client =
     \<lparr>GetRecentBlockhash = (\<lambda>c. Inr 7), SendTransactionWithOpts = (\<lambda>tx os. Inr ''sig123'')\<rparr>"

definition no_reference_client :: "(nat, stub_tx, string, failure) rpc_client" where
  "no_reference_client = stub_client\<lparr>GetRecentBlockhash := (\<lambda>c. Inl ReferenceUnavailable)\<rparr>"

definition rejecting_client :: "(nat, stub_tx, string, failure) rpc_client" where
  "rejecting_client = stub_client\<lparr>SendTransactionWithOpts := (\<lambda>tx os. Inl SubmissionRejected)\<rparr>"

definition stub_ws :: "failure subscription \<Rightarrow> (nat, failure) ws_client" where
  "stub_ws sub = \<lparr>AccountSubscribe = (\<lambda>account c. Inr sub)\<rparr>"

definition stub_solana :: "(nat, nat, nat, stub_tx, string, failure) solana" where
  "stub_solana =
     \<lparr>NewRandomPrivateKey = Inr 1,
      PublicKey = (\<lambda>k. k + 100),
      PublicKeyFromBase58 = (\<lambda>s. Inr 2),
      NewTransaction = spec_NewTransaction,
      Sign = spec_Sign (\<lambda>k. k + 100),
      rpc_New = (\<lambda>url. stub_client),
      ws_Connect = (\<lambda>url. Inr (stub_ws []))\<rparr>"

definition offline_solana :: "(nat, nat, nat, stub_tx, string, failure) solana" where
  "offline_solana =
     stub_solana\<lparr>NewRandomPrivateKey := Inl IdentityGenerationFailure,
                 ws_Connect := (\<lambda>url. Inl SubscriptionTransportError)\<rparr>"

definition rejecting_builder_solana :: "(nat, nat, nat, stub_tx, string, failure) solana" where
  "rejecting_builder_solana =
     stub_solana\<lparr>NewTransaction := (\<lambda>ins h os. Inl MalformedTransaction)\<rparr>"

text \<open>A signing step that asks the key getter for the key of an identity other than the payer's.\<close>

definition foreign_signer_solana :: "(nat, nat, nat, stub_tx, string, failure) solana" where
  "foreign_signer_solana =
     stub_solana\<lparr>Sign := (\<lambda>tx getter.
                   spec_Sign (\<lambda>k. k + 100) (tx\<lparr>payer := payer tx + 1\<rparr>) getter)\<rparr>"

text \<open>
  The envelope that the stub library builds for a transfer from private key \<open>k\<close>, the same
  envelope signed, and the key getter that \<open>withdraw\<close> passes for \<open>k\<close>.
\<close>

definition stub_unsigned :: "nat \<Rightarrow> nat \<Rightarrow> uint64 \<Rightarrow> stub_tx" where
  "stub_unsigned k to amount =
     \<lparr>instructions = [NewTransferInstruction amount (k + 100) to], payer = k + 100,
      blockReference = 7, signatures = []\<rparr>"

definition stub_signed :: "nat \<Rightarrow> nat \<Rightarrow> uint64 \<Rightarrow> stub_tx" where
  "stub_signed k to amount = (stub_unsigned k to amount)\<lparr>signatures := [SignedBy k]\<rparr>"

definition stub_getter :: "nat \<Rightarrow> nat \<Rightarrow> nat option" where
  "stub_getter k = (\<lambda>key. if key = k + 100 then Some k else None)"

text \<open>
  Binary64 arithmetic where it does not round: the conversion of an integer below \<open>2 ^ 53\<close>
  and a division whose exact quotient is a binary64 value give exactly these results. The
  balances of the scenarios (1000000000, 2000000000 and 500000000 lamports, that is 1, 2
  and 0.5 SOL) are of this kind.
\<close>

definition exact_float :: go_float where
  "exact_float = \<lparr>float64 = (\<lambda>n. of_nat (unat n)), float64_div = (\<lambda>a b. a / b)\<rparr>"

type_synonym stub_run = "(nat, nat, nat, stub_tx, string, failure) run"

type_synonym stub_run_event = "(nat, nat, nat, stub_tx, string, failure) event"

section \<open>Properties\<close>

subsection \<open>Auxiliary facts\<close>

lemma account_updates_append:
  "account_updates (t @ u) = account_updates t @ account_updates u"
  by (induction t rule: account_updates.induct) simp_all

lemma recv_reports_append:
  "recv_reports (t @ u) = recv_reports t @ recv_reports u"
  by (induction t rule: recv_reports.induct) simp_all



lemma delivered_map_Inr: "delivered (map Inr ns) = ns"
  by (induction ns) simp_all

lemma failed_map_Inr: "failed (map Inr ns) = []"
  by (induction ns) simp_all

text \<open>What the websocket client delivers: induction along the notifications that arrive.\<close>

lemma ws_delivery_map_Inr: "ws_delivery (map Inr ns) = map Inr ns"
  by (induction ns) simp_all


text \<open>The receive loop: computation induction along the results delivered.\<close>

lemma recv_loop_outcome: "outcome (recv_loop go account sub t) = Suspended"
  by (induction go account sub t rule: recv_loop.induct) (simp_all add: Let_def)

lemma recv_loop_updates:
  "account_updates (trace (recv_loop go account sub t)) =
     account_updates t @
     map (\<lambda>r. (account, float64_div go (float64 go (Lamports r)) LamportsPerSOL)) (delivered sub)"
  by (induction go account sub t rule: recv_loop.induct)
     (simp_all add: Let_def account_updates_append)

lemma recv_loop_reports:
  "recv_reports (trace (recv_loop go account sub t)) = recv_reports t @ failed sub"
  by (induction go account sub t rule: recv_loop.induct)
     (simp_all add: Let_def recv_reports_append)

lemma recv_loop_Unsubscribe:
  "CallUnsubscribe \<in> set (trace (recv_loop go account sub t)) \<longleftrightarrow> CallUnsubscribe \<in> set t"
  by (induction go account sub t rule: recv_loop.induct) (simp_all add: Let_def)

lemma recv_loop_hd: "t \<noteq> [] \<Longrightarrow> hd (trace (recv_loop go account sub t)) = hd t"
  by (induction go account sub t rule: recv_loop.induct) (simp_all add: Let_def)

lemma recv_loop_commitment:
  "e \<in> set (trace (recv_loop go account sub t)) \<Longrightarrow> e \<in> set t \<or> commitment_of e = None"
proof (induction go account sub t rule: recv_loop.induct)
  case (1 go account t)
  then show ?case by auto
next
  case (2 go account err sub t)
  then show ?case by auto
next
  case (3 go account result sub t)
  from "3.prems" have "e \<in> set (trace (recv_loop go account sub
      (t @ [CallRecv, PrintfAccountUpdate account
              (float64_div go (float64 go (Lamports result)) LamportsPerSOL)])))"
    by (simp add: Let_def)
  from "3.IH" [OF refl refl this] show ?case by auto
qed

lemma monitorDeposits_subscribed:
  "AccountSubscribe wsClient account CommitmentFinalized = Inr sub \<Longrightarrow>
   monitorDeposits go wsClient account =
     recv_loop go account sub
       [CallAccountSubscribe account CommitmentFinalized, PrintfMonitorStart account]"
  by (simp add: monitorDeposits_def defer_Unsubscribe_def recv_loop_outcome)

lemma monitorDeposits_refused:
  "AccountSubscribe wsClient account CommitmentFinalized = Inl err \<Longrightarrow>
   monitorDeposits go wsClient account =
     \<lparr>trace = [CallAccountSubscribe account CommitmentFinalized, Fatalf SubscribeFailed err],
      outcome = Aborted\<rparr>"
  by (simp add: monitorDeposits_def)

text \<open>The balances of the scenarios, converted and divided without rounding.\<close>

lemma exact_float_scenarios:
  "float64_div exact_float (float64 exact_float 1000000000) LamportsPerSOL = 1"
  "float64_div exact_float (float64 exact_float 2000000000) LamportsPerSOL = 2"
  "float64_div exact_float (float64 exact_float 500000000) LamportsPerSOL = 1 / 2"
  by (simp_all add: exact_float_def LamportsPerSOL_def)

text \<open>The run of \<open>withdraw\<close> when the block-hash request fails.\<close>

lemma withdraw_no_blockhash:
  "GetRecentBlockhash client CommitmentFinalized = Inl err \<Longrightarrow>
   withdraw solana client fromPrivateKey toPublicKey amount =
     \<lparr>trace = [CallGetRecentBlockhash CommitmentFinalized, Fatalf BlockhashFailed err],
      outcome = Aborted\<rparr>"
  by (simp add: withdraw_def)

text \<open>The runs of \<open>withdraw\<close> against the stubs.\<close>

lemma stub_facts:
  "GetRecentBlockhash stub_client c = Inr 7"
  "SendTransactionWithOpts stub_client tx os = Inr ''sig123''"
  "GetRecentBlockhash no_reference_client c = Inl ReferenceUnavailable"
  "GetRecentBlockhash rejecting_client c = Inr 7"
  "SendTransactionWithOpts rejecting_client tx os = Inl SubmissionRejected"
  "AccountSubscribe (stub_ws sub) account c = Inr sub"
  "PublicKey stub_solana k = k + 100"
  "PublicKey rejecting_builder_solana k = k + 100"
  "PublicKey foreign_signer_solana k = k + 100"
  "NewTransaction stub_solana [NewTransferInstruction amount (k + 100) to] 7
     [TransactionPayer (k + 100)] = Inr (stub_unsigned k to amount)"
  "NewTransaction foreign_signer_solana [NewTransferInstruction amount (k + 100) to] 7
     [TransactionPayer (k + 100)] = Inr (stub_unsigned k to amount)"
  "NewTransaction rejecting_builder_solana ins h tos = Inl MalformedTransaction"
  "Sign stub_solana (stub_unsigned k to amount) (stub_getter k) = Inr (stub_signed k to amount)"
  "Sign foreign_signer_solana (stub_unsigned k to amount) (stub_getter k) = Inl SigningKeyMismatch"
  "NewRandomPrivateKey offline_solana = Inl IdentityGenerationFailure"
  "ws_Connect offline_solana url = Inl SubscriptionTransportError"
  by (simp_all add: stub_client_def no_reference_client_def rejecting_client_def stub_ws_def
        stub_solana_def rejecting_builder_solana_def foreign_signer_solana_def offline_solana_def
        stub_unsigned_def stub_signed_def stub_getter_def spec_Sign_def)

lemma stub_getter_eq:
  "(\<lambda>key. if key = PublicKey stub_solana k then Some k else None) = stub_getter k"
  by (simp add: stub_getter_def stub_facts)

lemma stub_NewTransaction:
  "NewTransaction stub_solana [NewTransferInstruction amount (PublicKey stub_solana k) to] 7
     [TransactionPayer (PublicKey stub_solana k)] = Inr (stub_unsigned k to amount)"
  by (simp only: stub_facts)

lemma stub_Sign:
  "Sign stub_solana (stub_unsigned k to amount)
     (\<lambda>key. if key = PublicKey stub_solana k then Some k else None) =
   Inr (stub_signed k to amount)"
  by (simp add: stub_facts stub_getter_def [symmetric])

lemma stub_withdraw_ok:
  "withdraw stub_solana stub_client k to amount =
     \<lparr>trace = [CallGetRecentBlockhash CommitmentFinalized,
               CallNewTransaction [NewTransferInstruction amount (k + 100) to] 7
                 [TransactionPayer (k + 100)],
               CallSign (stub_unsigned k to amount) (stub_getter k),
               CallSendTransactionWithOpts (stub_signed k to amount)
                 \<lparr>SkipPreflight = False, PreflightCommitment = CommitmentFinalized\<rparr>,
               PrintfWithdrawOk ''sig123''],
      outcome = Returned\<rparr>"
  by (simp add: withdraw_def Let_def stub_facts stub_getter_def [symmetric])

lemma stub_withdraw_rejected:
  "withdraw stub_solana rejecting_client k to amount =
     \<lparr>trace = [CallGetRecentBlockhash CommitmentFinalized,
               CallNewTransaction [NewTransferInstruction amount (k + 100) to] 7
                 [TransactionPayer (k + 100)],
               CallSign (stub_unsigned k to amount) (stub_getter k),
               CallSendTransactionWithOpts (stub_signed k to amount)
                 \<lparr>SkipPreflight = False, PreflightCommitment = CommitmentFinalized\<rparr>,
               Fatalf SendTransactionFailed SubmissionRejected],
      outcome = Aborted\<rparr>"
  by (simp add: withdraw_def Let_def stub_facts stub_getter_def [symmetric])

lemma stub_withdraw_unsigned:
  "withdraw foreign_signer_solana stub_client k to amount =
     \<lparr>trace = [CallGetRecentBlockhash CommitmentFinalized,
               CallNewTransaction [NewTransferInstruction amount (k + 100) to] 7
                 [TransactionPayer (k + 100)],
               CallSign (stub_unsigned k to amount) (stub_getter k),
               Fatalf SignTransactionFailed SigningKeyMismatch],
      outcome = Aborted\<rparr>"
  by (simp add: withdraw_def Let_def stub_facts stub_getter_def [symmetric])

lemma stub_withdraw_malformed:
  "withdraw rejecting_builder_solana stub_client k to amount =
     \<lparr>trace = [CallGetRecentBlockhash CommitmentFinalized,
               CallNewTransaction [NewTransferInstruction amount (k + 100) to] 7
                 [TransactionPayer (k + 100)],
               Fatalf CreateTransactionFailed MalformedTransaction],
      outcome = Aborted\<rparr>"
  by (simp add: withdraw_def Let_def stub_facts)

lemma stub_withdraw_no_reference:
  "withdraw solana no_reference_client k to amount =
     \<lparr>trace = [CallGetRecentBlockhash CommitmentFinalized,
               Fatalf BlockhashFailed ReferenceUnavailable],
      outcome = Aborted\<rparr>"
  by (simp add: withdraw_no_blockhash stub_facts)

lemma spec_solana_stub: "spec_solana stub_solana = stub_solana"
  by (simp add: spec_solana_def stub_solana_def)

subsection \<open>Withdrawal\<close>

text \<open>
  C1. Whenever the block hash is obtained, \<open>withdraw\<close> constructs exactly one transaction,
  from exactly one instruction: a transfer of the given amount from the source's public key
  to the given destination, with the block hash just obtained and the source's public key as
  the fee payer; and the only transaction it signs is the one so constructed. This holds for
  every library and gateway and for every amount (so also for every amount above 0).
\<close>

theorem withdraw_builds_single_transfer:
  assumes "GetRecentBlockhash client CommitmentFinalized = Inr recent"
  shows "constructions (trace (withdraw solana client fromPrivateKey toPublicKey amount)) =
           [([NewTransferInstruction amount (PublicKey solana fromPrivateKey) toPublicKey],
             recent, [TransactionPayer (PublicKey solana fromPrivateKey)])]
       \<and> (\<forall>tx getter.
             CallSign tx getter
               \<in> set (trace (withdraw solana client fromPrivateKey toPublicKey amount)) \<longrightarrow>
             NewTransaction solana
               [NewTransferInstruction amount (PublicKey solana fromPrivateKey) toPublicKey]
               recent [TransactionPayer (PublicKey solana fromPrivateKey)] = Inr tx)"
  using assms by (auto simp: withdraw_def Let_def split: sum.splits)

theorem withdraw_builds_single_transfer_witness:
  "GetRecentBlockhash stub_client CommitmentFinalized = Inr 7
   \<and> PublicKey stub_solana 3 = 103
   \<and> constructions (trace (withdraw stub_solana stub_client 3 4 5)) =
       [([NewTransferInstruction 5 (PublicKey stub_solana 3) 4], 7,
         [TransactionPayer (PublicKey stub_solana 3)])]
   \<and> CallSign (stub_unsigned 3 4 5) (stub_getter 3)
       \<in> set (trace (withdraw stub_solana stub_client 3 4 5))
   \<and> NewTransaction stub_solana [NewTransferInstruction 5 (PublicKey stub_solana 3) 4] 7
       [TransactionPayer (PublicKey stub_solana 3)] = Inr (stub_unsigned 3 4 5)"
proof -
  have h: "GetRecentBlockhash stub_client CommitmentFinalized = Inr 7"
    by (simp add: stub_facts)
  have p: "PublicKey stub_solana 3 = 103"
    by (simp add: stub_facts)
  have s: "CallSign (stub_unsigned 3 4 5) (stub_getter 3)
             \<in> set (trace (withdraw stub_solana stub_client 3 4 5))"
    by (simp add: stub_withdraw_ok)
  from withdraw_builds_single_transfer [OF h, of stub_solana 3 4 5] h p s
  show ?thesis by blast
qed

text \<open>
  C2. The key getter that \<open>withdraw\<close> hands to the signing step yields the source's private
  key for the source's public key (the declared payer) and no key for any other public key.
  When the signing step reports an error, the process is aborted with the signing failure
  and nothing is submitted. With the signing step as the specification describes it, a
  request for another identity's key fails with \<open>SigningKeyMismatch\<close>, and every transaction
  that reaches the gateway carries exactly one signature, made with the source's private key,
  and names the source as payer; when the block hash is obtained there is one such submission.
\<close>

theorem withdraw_signs_with_source_key_only:
  fixes solana :: "('sk, 'pk, 'h, ('sk, 'pk, 'h) SignedTransaction, 'sg, failure) solana"
  shows
    "(\<forall>tx getter.
        CallSign tx getter
          \<in> set (trace (withdraw solana client fromPrivateKey toPublicKey amount)) \<longrightarrow>
        (\<forall>key. getter key =
           (if key = PublicKey solana fromPrivateKey then Some fromPrivateKey else None)))
   \<and> (\<forall>tx getter err.
        CallSign tx getter
          \<in> set (trace (withdraw solana client fromPrivateKey toPublicKey amount))
        \<and> Sign solana tx getter = Inl err \<longrightarrow>
        outcome (withdraw solana client fromPrivateKey toPublicKey amount) = Aborted
      \<and> last (trace (withdraw solana client fromPrivateKey toPublicKey amount)) =
          Fatalf SignTransactionFailed err
      \<and> submissions (trace (withdraw solana client fromPrivateKey toPublicKey amount)) = [])
   \<and> (\<forall>tx. payer tx \<noteq> PublicKey solana fromPrivateKey \<longrightarrow>
        spec_Sign (PublicKey solana) tx
          (\<lambda>key. if key = PublicKey solana fromPrivateKey then Some fromPrivateKey else None) =
        Inl SigningKeyMismatch)
   \<and> (\<forall>tx os.
        (tx, os) \<in> set (submissions (trace
           (withdraw (spec_solana solana) client fromPrivateKey toPublicKey amount))) \<longrightarrow>
        signatures tx = [SignedBy fromPrivateKey] \<and> payer tx = PublicKey solana fromPrivateKey)
   \<and> (\<forall>recent. GetRecentBlockhash client CommitmentFinalized = Inr recent \<longrightarrow>
        length (submissions (trace
           (withdraw (spec_solana solana) client fromPrivateKey toPublicKey amount))) = 1)"
  by (auto simp: withdraw_def spec_solana_def spec_Sign_def Let_def split: sum.splits)

theorem withdraw_signs_with_source_key_only_witness:
  "CallSign (stub_unsigned 3 4 5) (stub_getter 3)
     \<in> set (trace (withdraw stub_solana stub_client 3 4 5))
   \<and> stub_getter 3 103 = Some 3
   \<and> stub_getter 3 104 = None
   \<and> CallSign (stub_unsigned 3 4 5) (stub_getter 3)
       \<in> set (trace (withdraw foreign_signer_solana stub_client 3 4 5))
   \<and> Sign foreign_signer_solana (stub_unsigned 3 4 5) (stub_getter 3) = Inl SigningKeyMismatch
   \<and> outcome (withdraw foreign_signer_solana stub_client 3 4 5) = Aborted
   \<and> submissions (trace (withdraw foreign_signer_solana stub_client 3 4 5)) = []
   \<and> payer (stub_unsigned 6 4 5) \<noteq> PublicKey stub_solana 3
   \<and> spec_Sign (PublicKey stub_solana) (stub_unsigned 6 4 5) (stub_getter 3) =
       Inl SigningKeyMismatch
   \<and> (stub_signed 3 4 5, \<lparr>SkipPreflight = False, PreflightCommitment = CommitmentFinalized\<rparr>)
       \<in> set (submissions (trace (withdraw (spec_solana stub_solana) stub_client 3 4 5)))
   \<and> signatures (stub_signed 3 4 5) = [SignedBy 3]
   \<and> payer (stub_signed 3 4 5) = 103
   \<and> GetRecentBlockhash stub_client CommitmentFinalized = Inr 7
   \<and> length (submissions (trace (withdraw (spec_solana stub_solana) stub_client 3 4 5))) = 1"
proof -
  have g: "stub_getter 3 = (\<lambda>key. if key = PublicKey stub_solana 3 then Some 3 else None)"
    by (simp add: stub_getter_def stub_facts)
  have a: "CallSign (stub_unsigned 3 4 5) (stub_getter 3)
             \<in> set (trace (withdraw stub_solana stub_client 3 4 5))"
    by (simp add: stub_withdraw_ok)
  have b: "CallSign (stub_unsigned 3 4 5) (stub_getter 3)
             \<in> set (trace (withdraw foreign_signer_solana stub_client 3 4 5))
           \<and> Sign foreign_signer_solana (stub_unsigned 3 4 5) (stub_getter 3) =
               Inl SigningKeyMismatch"
    by (simp add: stub_withdraw_unsigned stub_facts)
  have c: "payer (stub_unsigned 6 4 5) \<noteq> PublicKey stub_solana 3"
    by (simp add: stub_unsigned_def stub_facts)
  have d: "(stub_signed 3 4 5, \<lparr>SkipPreflight = False, PreflightCommitment = CommitmentFinalized\<rparr>)
             \<in> set (submissions (trace (withdraw (spec_solana stub_solana) stub_client 3 4 5)))"
    by (simp add: spec_solana_stub stub_withdraw_ok)
  have e: "GetRecentBlockhash stub_client CommitmentFinalized = Inr 7"
    by (simp add: stub_facts)
  note main = withdraw_signs_with_source_key_only [of stub_solana stub_client 3 4 5]
  note foreign = withdraw_signs_with_source_key_only [of foreign_signer_solana stub_client 3 4 5]
  from main a have r1: "stub_getter 3 103 = Some 3 \<and> stub_getter 3 104 = None"
    by (simp add: stub_getter_def)
  from foreign b
  have r2: "outcome (withdraw foreign_signer_solana stub_client 3 4 5) = Aborted
         \<and> submissions (trace (withdraw foreign_signer_solana stub_client 3 4 5)) = []"
    by blast
  from main c have r3: "spec_Sign (PublicKey stub_solana) (stub_unsigned 6 4 5) (stub_getter 3) =
       Inl SigningKeyMismatch"
    unfolding g by blast
  from main d have r4: "signatures (stub_signed 3 4 5) = [SignedBy 3]
       \<and> payer (stub_signed 3 4 5) = 103"
    by (simp add: stub_signed_def stub_unsigned_def)
  from main e
  have r5: "length (submissions (trace (withdraw (spec_solana stub_solana) stub_client 3 4 5))) = 1"
    by blast
  from a b c d e r1 r2 r3 r4 r5 show ?thesis by blast
qed

text \<open>
  C4 as stated does not hold: \<open>withdraw\<close> never looks at the amount. Called with amount 0
  against a library that builds and signs the envelope and a gateway that accepts it, it
  submits a transfer of 0 lamports and returns normally.
\<close>

theorem withdraw_submits_zero_amount:
  "submissions (trace (withdraw stub_solana stub_client 3 4 0)) =
     [(\<lparr>instructions = [NewTransferInstruction 0 103 4], payer = 103, blockReference = 7,
         signatures = [SignedBy 3]\<rparr>,
       \<lparr>SkipPreflight = False, PreflightCommitment = CommitmentFinalized\<rparr>)]
   \<and> outcome (withdraw stub_solana stub_client 3 4 0) = Returned"
  by (simp add: stub_withdraw_ok stub_signed_def stub_unsigned_def)

text \<open>
  C4, amended. \<open>withdraw\<close> performs no check of the amount: called with amount 0 it has a
  transfer instruction of 0 lamports constructed, and whenever the block-hash request, the
  construction and the signing succeed it hands the signed transaction to the gateway, with
  preflight enabled. A zero amount is rejected only if the library or the gateway rejects it.
\<close>

theorem withdraw_zero_amount_unchecked:
  assumes "GetRecentBlockhash client CommitmentFinalized = Inr recent"
    and "NewTransaction solana
           [NewTransferInstruction 0 (PublicKey solana fromPrivateKey) toPublicKey] recent
           [TransactionPayer (PublicKey solana fromPrivateKey)] = Inr tx"
    and "Sign solana tx
           (\<lambda>key. if key = PublicKey solana fromPrivateKey then Some fromPrivateKey else None) =
         Inr signedTx"
  shows "constructions (trace (withdraw solana client fromPrivateKey toPublicKey 0)) =
           [([NewTransferInstruction 0 (PublicKey solana fromPrivateKey) toPublicKey], recent,
             [TransactionPayer (PublicKey solana fromPrivateKey)])]
       \<and> submissions (trace (withdraw solana client fromPrivateKey toPublicKey 0)) =
           [(signedTx, \<lparr>SkipPreflight = False, PreflightCommitment = CommitmentFinalized\<rparr>)]"
  using assms by (simp add: withdraw_def Let_def split: sum.splits)

theorem withdraw_zero_amount_unchecked_witness:
  "GetRecentBlockhash rejecting_client CommitmentFinalized = Inr 7
   \<and> NewTransaction stub_solana [NewTransferInstruction 0 (PublicKey stub_solana 3) 4] 7
       [TransactionPayer (PublicKey stub_solana 3)] = Inr (stub_unsigned 3 4 0)
   \<and> Sign stub_solana (stub_unsigned 3 4 0)
       (\<lambda>key. if key = PublicKey stub_solana 3 then Some 3 else None) = Inr (stub_signed 3 4 0)
   \<and> submissions (trace (withdraw stub_solana rejecting_client 3 4 0)) =
       [(stub_signed 3 4 0, \<lparr>SkipPreflight = False, PreflightCommitment = CommitmentFinalized\<rparr>)]"
proof -
  have h1: "GetRecentBlockhash rejecting_client CommitmentFinalized = Inr 7"
    by (simp add: stub_facts)
  have h2: "NewTransaction stub_solana [NewTransferInstruction 0 (PublicKey stub_solana 3) 4] 7
       [TransactionPayer (PublicKey stub_solana 3)] = Inr (stub_unsigned 3 4 0)"
    by (rule stub_NewTransaction)
  have h3: "Sign stub_solana (stub_unsigned 3 4 0)
       (\<lambda>key. if key = PublicKey stub_solana 3 then Some 3 else None) = Inr (stub_signed 3 4 0)"
    by (rule stub_Sign)
  from withdraw_zero_amount_unchecked [OF h1 h2 h3] h1 h2 h3 show ?thesis by blast
qed

text \<open>
  C5 as stated does not hold: when the block-hash request fails nothing is returned to the
  caller. \<open>withdraw\<close> ends the whole process through \<open>log.Fatalf\<close>.
\<close>

theorem withdraw_aborts_without_reference:
  "outcome (withdraw stub_solana no_reference_client 3 4 100000000) = Aborted
   \<and> last (trace (withdraw stub_solana no_reference_client 3 4 100000000)) =
       Fatalf BlockhashFailed ReferenceUnavailable"
  by (simp add: stub_withdraw_no_reference)

text \<open>
  C5, amended. If the block-hash request fails, \<open>withdraw\<close> reports the failure with
  \<open>log.Fatalf\<close>, which ends the process; the request is the only call it made: no
  transaction is constructed and none is submitted.
\<close>

theorem withdraw_reference_failure_aborts:
  assumes "GetRecentBlockhash client CommitmentFinalized = Inl err"
  shows "withdraw solana client fromPrivateKey toPublicKey amount =
           \<lparr>trace = [CallGetRecentBlockhash CommitmentFinalized, Fatalf BlockhashFailed err],
            outcome = Aborted\<rparr>
       \<and> constructions (trace (withdraw solana client fromPrivateKey toPublicKey amount)) = []
       \<and> submissions (trace (withdraw solana client fromPrivateKey toPublicKey amount)) = []"
  by (simp add: withdraw_no_blockhash [OF assms])

theorem withdraw_reference_failure_aborts_witness:
  "GetRecentBlockhash no_reference_client CommitmentFinalized = Inl ReferenceUnavailable
   \<and> withdraw stub_solana no_reference_client 3 4 5 =
       \<lparr>trace = [CallGetRecentBlockhash CommitmentFinalized,
                 Fatalf BlockhashFailed ReferenceUnavailable],
        outcome = Aborted\<rparr>
   \<and> submissions (trace (withdraw stub_solana no_reference_client 3 4 5)) = []"
proof -
  have h: "GetRecentBlockhash no_reference_client CommitmentFinalized = Inl ReferenceUnavailable"
    by (simp add: stub_facts)
  from withdraw_reference_failure_aborts [OF h, of stub_solana 3 4 5] h
  show ?thesis by blast
qed
text \<open>
  C7 as stated does not hold: a withdrawal failure is not returned to the caller. When the
  gateway rejects the submission, \<open>withdraw\<close> ends the process through \<open>log.Fatalf\<close>.
\<close>

theorem withdraw_rejection_aborts_process:
  "outcome (withdraw stub_solana rejecting_client 3 4 5) = Aborted
   \<and> last (trace (withdraw stub_solana rejecting_client 3 4 5)) =
       Fatalf SendTransactionFailed SubmissionRejected"
  by (simp add: stub_withdraw_rejected)

text \<open>
  C7, amended. Every withdrawal failure ends the process: a failed block-hash request, a
  failed construction, a failed signing and a failed submission each make \<open>withdraw\<close> stop in
  \<open>log.Fatalf\<close> with the message of that step as its last action, and \<open>withdraw\<close> returns to
  its caller only after a submission that the gateway accepted, with no result value. A
  failed key generation and a failed initial connection end the process in the same way.
\<close>

theorem failures_abort_the_process:
  "(\<forall>c err.
      CallGetRecentBlockhash c
        \<in> set (trace (withdraw solana client fromPrivateKey toPublicKey amount))
      \<and> GetRecentBlockhash client c = Inl err \<longrightarrow>
      outcome (withdraw solana client fromPrivateKey toPublicKey amount) = Aborted
    \<and> last (trace (withdraw solana client fromPrivateKey toPublicKey amount)) =
        Fatalf BlockhashFailed err)
 \<and> (\<forall>ins h os err.
      CallNewTransaction ins h os
        \<in> set (trace (withdraw solana client fromPrivateKey toPublicKey amount))
      \<and> NewTransaction solana ins h os = Inl err \<longrightarrow>
      outcome (withdraw solana client fromPrivateKey toPublicKey amount) = Aborted
    \<and> last (trace (withdraw solana client fromPrivateKey toPublicKey amount)) =
        Fatalf CreateTransactionFailed err)
 \<and> (\<forall>tx getter err.
      CallSign tx getter
        \<in> set (trace (withdraw solana client fromPrivateKey toPublicKey amount))
      \<and> Sign solana tx getter = Inl err \<longrightarrow>
      outcome (withdraw solana client fromPrivateKey toPublicKey amount) = Aborted
    \<and> last (trace (withdraw solana client fromPrivateKey toPublicKey amount)) =
        Fatalf SignTransactionFailed err)
 \<and> (\<forall>tx os err.
      CallSendTransactionWithOpts tx os
        \<in> set (trace (withdraw solana client fromPrivateKey toPublicKey amount))
      \<and> SendTransactionWithOpts client tx os = Inl err \<longrightarrow>
      outcome (withdraw solana client fromPrivateKey toPublicKey amount) = Aborted
    \<and> last (trace (withdraw solana client fromPrivateKey toPublicKey amount)) =
        Fatalf SendTransactionFailed err)
 \<and> (outcome (withdraw solana client fromPrivateKey toPublicKey amount) = Returned \<longrightarrow>
      (\<exists>tx os sig.
         SendTransactionWithOpts client tx os = Inr sig
       \<and> last (trace (withdraw solana client fromPrivateKey toPublicKey amount)) =
           PrintfWithdrawOk sig))
 \<and> (\<forall>err. NewRandomPrivateKey solana = Inl err \<longrightarrow>
      generateKeypair solana = ([CallNewRandomPrivateKey, Fatalf KeypairFailed err], None))
 \<and> (\<forall>err. ws_Connect solana wsURL = Inl err \<longrightarrow>
      main_startup solana = ([CallConnect wsURL, Fatalf ConnectFailed err], None))"
  by (auto simp: withdraw_def generateKeypair_def main_startup_def Let_def split: sum.splits)

theorem failures_abort_the_process_witness:
  "GetRecentBlockhash no_reference_client CommitmentFinalized = Inl ReferenceUnavailable
   \<and> outcome (withdraw stub_solana no_reference_client 3 4 5) = Aborted
   \<and> NewTransaction rejecting_builder_solana [NewTransferInstruction 5 103 4] 7
       [TransactionPayer 103] = Inl MalformedTransaction
   \<and> last (trace (withdraw rejecting_builder_solana stub_client 3 4 5)) =
       Fatalf CreateTransactionFailed MalformedTransaction
   \<and> Sign foreign_signer_solana (stub_unsigned 3 4 5) (stub_getter 3) = Inl SigningKeyMismatch
   \<and> last (trace (withdraw foreign_signer_solana stub_client 3 4 5)) =
       Fatalf SignTransactionFailed SigningKeyMismatch
   \<and> SendTransactionWithOpts rejecting_client (stub_signed 3 4 5)
       \<lparr>SkipPreflight = False, PreflightCommitment = CommitmentFinalized\<rparr> =
       Inl SubmissionRejected
   \<and> last (trace (withdraw stub_solana rejecting_client 3 4 5)) =
       Fatalf SendTransactionFailed SubmissionRejected
   \<and> outcome (withdraw stub_solana stub_client 3 4 5) = Returned
   \<and> last (trace (withdraw stub_solana stub_client 3 4 5)) = PrintfWithdrawOk ''sig123''
   \<and> NewRandomPrivateKey offline_solana = Inl IdentityGenerationFailure
   \<and> generateKeypair offline_solana =
       ([CallNewRandomPrivateKey, Fatalf KeypairFailed IdentityGenerationFailure], None)
   \<and> ws_Connect offline_solana wsURL = Inl SubscriptionTransportError
   \<and> main_startup offline_solana =
       ([CallConnect wsURL, Fatalf ConnectFailed SubscriptionTransportError], None)"
proof -
  have a: "CallGetRecentBlockhash CommitmentFinalized
             \<in> set (trace (withdraw stub_solana no_reference_client 3 4 5))
           \<and> GetRecentBlockhash no_reference_client CommitmentFinalized =
               Inl ReferenceUnavailable"
    by (simp add: stub_withdraw_no_reference stub_facts)
  have b: "CallNewTransaction [NewTransferInstruction 5 103 4] 7 [TransactionPayer 103]
             \<in> set (trace (withdraw rejecting_builder_solana stub_client 3 4 5))
           \<and> NewTransaction rejecting_builder_solana [NewTransferInstruction 5 103 4] 7
               [TransactionPayer 103] = Inl MalformedTransaction"
    by (simp add: stub_withdraw_malformed stub_facts)
  have c: "CallSign (stub_unsigned 3 4 5) (stub_getter 3)
             \<in> set (trace (withdraw foreign_signer_solana stub_client 3 4 5))
           \<and> Sign foreign_signer_solana (stub_unsigned 3 4 5) (stub_getter 3) =
               Inl SigningKeyMismatch"
    by (simp add: stub_withdraw_unsigned stub_facts)
  have d: "CallSendTransactionWithOpts (stub_signed 3 4 5)
               \<lparr>SkipPreflight = False, PreflightCommitment = CommitmentFinalized\<rparr>
             \<in> set (trace (withdraw stub_solana rejecting_client 3 4 5))
           \<and> SendTransactionWithOpts rejecting_client (stub_signed 3 4 5)
               \<lparr>SkipPreflight = False, PreflightCommitment = CommitmentFinalized\<rparr> =
               Inl SubmissionRejected"
    by (simp add: stub_withdraw_rejected stub_facts)
  have e: "outcome (withdraw stub_solana stub_client 3 4 5) = Returned"
    by (simp add: stub_withdraw_ok)
  have f: "NewRandomPrivateKey offline_solana = Inl IdentityGenerationFailure
           \<and> ws_Connect offline_solana wsURL = Inl SubscriptionTransportError"
    by (simp add: stub_facts)
  from failures_abort_the_process [of stub_solana no_reference_client 3 4 5] a
  have r1: "outcome (withdraw stub_solana no_reference_client 3 4 5) = Aborted"
    by blast
  from failures_abort_the_process [of rejecting_builder_solana stub_client 3 4 5] b
  have r2: "last (trace (withdraw rejecting_builder_solana stub_client 3 4 5)) =
              Fatalf CreateTransactionFailed MalformedTransaction"
    by blast
  from failures_abort_the_process [of foreign_signer_solana stub_client 3 4 5] c
  have r3: "last (trace (withdraw foreign_signer_solana stub_client 3 4 5)) =
              Fatalf SignTransactionFailed SigningKeyMismatch"
    by blast
  from failures_abort_the_process [of stub_solana rejecting_client 3 4 5] d
  have r4: "last (trace (withdraw stub_solana rejecting_client 3 4 5)) =
              Fatalf SendTransactionFailed SubmissionRejected"
    by blast
  from failures_abort_the_process [of stub_solana stub_client 3 4 5] e
  have r5: "last (trace (withdraw stub_solana stub_client 3 4 5)) = PrintfWithdrawOk ''sig123''"
    by (simp add: stub_facts)
  from failures_abort_the_process [of offline_solana stub_client 3 4 5] f
  have r6: "generateKeypair offline_solana =
              ([CallNewRandomPrivateKey, Fatalf KeypairFailed IdentityGenerationFailure], None)
          \<and> main_startup offline_solana =
              ([CallConnect wsURL, Fatalf ConnectFailed SubscriptionTransportError], None)"
    by blast
  from a b c d e f r1 r2 r3 r4 r5 r6 show ?thesis by blast
qed

text \<open>
  C9. Every gateway call that names a commitment level names \<open>finalized\<close>: the block-hash
  request (always the first action of \<open>withdraw\<close>), the preflight commitment of every
  submission, and the account subscription (always the first action of \<open>monitorDeposits\<close>);
  and every submission is made with preflight not skipped.
\<close>

theorem finalized_commitment_everywhere:
  "(\<forall>e \<in> set (trace (withdraw solana client fromPrivateKey toPublicKey amount)).
      \<forall>c. commitment_of e = Some c \<longrightarrow> c = CommitmentFinalized)
 \<and> (\<forall>e \<in> set (trace (monitorDeposits go wsClient account :: ('sk, 'pk, 'h, 'tx, 'sg, 'e) run)).
      \<forall>c. commitment_of e = Some c \<longrightarrow> c = CommitmentFinalized)
 \<and> (\<forall>tx os.
      (tx, os) \<in> set (submissions
         (trace (withdraw solana client fromPrivateKey toPublicKey amount))) \<longrightarrow>
      \<not> SkipPreflight os \<and> PreflightCommitment os = CommitmentFinalized)
 \<and> hd (trace (withdraw solana client fromPrivateKey toPublicKey amount)) =
      CallGetRecentBlockhash CommitmentFinalized
 \<and> hd (trace (monitorDeposits go wsClient account :: ('sk, 'pk, 'h, 'tx, 'sg, 'e) run)) =
      CallAccountSubscribe account CommitmentFinalized"
proof -
  let ?w = "withdraw solana client fromPrivateKey toPublicKey amount"
  let ?m = "monitorDeposits go wsClient account :: ('sk, 'pk, 'h, 'tx, 'sg, 'e) run"
  have w: "\<forall>e \<in> set (trace ?w). \<forall>c. commitment_of e = Some c \<longrightarrow> c = CommitmentFinalized"
    by (auto simp: withdraw_def Let_def split: sum.splits)
  have s: "\<forall>tx os. (tx, os) \<in> set (submissions (trace ?w)) \<longrightarrow>
             \<not> SkipPreflight os \<and> PreflightCommitment os = CommitmentFinalized"
    by (auto simp: withdraw_def Let_def split: sum.splits)
  have hw: "hd (trace ?w) = CallGetRecentBlockhash CommitmentFinalized"
    by (simp add: withdraw_def Let_def split: sum.splits)
  have m: "\<forall>e \<in> set (trace ?m). \<forall>c. commitment_of e = Some c \<longrightarrow> c = CommitmentFinalized"
  proof (cases "AccountSubscribe wsClient account CommitmentFinalized")
    case (Inl err)
    then show ?thesis by (simp add: monitorDeposits_refused)
  next
    case (Inr sub)
    show ?thesis
      using recv_loop_commitment [of _ go account sub
          "[CallAccountSubscribe account CommitmentFinalized, PrintfMonitorStart account]"]
      by (fastforce simp: monitorDeposits_subscribed [OF Inr])
  qed
  have hm: "hd (trace ?m) = CallAccountSubscribe account CommitmentFinalized"
  proof (cases "AccountSubscribe wsClient account CommitmentFinalized")
    case (Inl err)
    then show ?thesis by (simp add: monitorDeposits_refused)
  next
    case (Inr sub)
    show ?thesis by (simp add: monitorDeposits_subscribed [OF Inr] recv_loop_hd)
  qed
  from w m s hw hm show ?thesis by blast
qed

theorem finalized_commitment_everywhere_witness:
  "CallSendTransactionWithOpts (stub_signed 3 4 5)
       \<lparr>SkipPreflight = False, PreflightCommitment = CommitmentFinalized\<rparr>
     \<in> set (trace (withdraw stub_solana stub_client 3 4 5))
   \<and> commitment_of (CallSendTransactionWithOpts (stub_signed 3 4 5)
       \<lparr>SkipPreflight = False, PreflightCommitment = CommitmentFinalized\<rparr> :: stub_run_event) =
       Some CommitmentFinalized
   \<and> map commitment_of (trace (withdraw stub_solana stub_client 3 4 5)) =
       [Some CommitmentFinalized, None, None, Some CommitmentFinalized, None]
   \<and> map commitment_of
       (trace (monitorDeposits exact_float (stub_ws [Inr \<lparr>Lamports = 1000000000\<rparr>]) 103
          :: stub_run)) =
       [Some CommitmentFinalized, None, None, None, None]
   \<and> map (SkipPreflight \<circ> snd) (submissions (trace (withdraw stub_solana stub_client 3 4 5))) =
       [False]
   \<and> hd (trace (withdraw stub_solana stub_client 3 4 5)) =
       CallGetRecentBlockhash CommitmentFinalized
   \<and> hd (trace (monitorDeposits exact_float (stub_ws [Inr \<lparr>Lamports = 1000000000\<rparr>]) 103
          :: stub_run)) =
       CallAccountSubscribe 103 CommitmentFinalized"
  using finalized_commitment_everywhere [of stub_solana stub_client 3 4 5 exact_float
          "stub_ws [Inr \<lparr>Lamports = 1000000000\<rparr>]" 103]
  by (simp add: stub_withdraw_ok monitorDeposits_subscribed stub_facts Let_def)

text \<open>
  C10. The amount computed in \<open>main\<close>, \<open>uint64(0.1 * LamportsPerSOL)\<close> with
  \<open>LamportsPerSOL = 1000000000\<close>, is a valid constant conversion and its value is exactly
  100000000; a withdrawal of that amount has a transfer instruction constructed whose amount
  field is 100000000.
\<close>

theorem main_amount_is_100000000:
  "main_amount = Some 100000000
   \<and> map_option unat main_amount = Some 100000000
   \<and> (\<forall>amount recent.
        main_amount = Some amount
        \<and> GetRecentBlockhash client CommitmentFinalized = Inr recent \<longrightarrow>
        constructions (trace (withdraw solana client fromPrivateKey toPublicKey amount)) =
          [([NewTransferInstruction 100000000 (PublicKey solana fromPrivateKey) toPublicKey],
            recent, [TransactionPayer (PublicKey solana fromPrivateKey)])])"
  by (auto simp: main_amount_def uint64_const_def LamportsPerSOL_def withdraw_def Let_def
        split: sum.splits)

theorem main_amount_is_100000000_witness:
  "main_amount = Some 100000000
   \<and> GetRecentBlockhash stub_client CommitmentFinalized = Inr 7
   \<and> constructions (trace (withdraw stub_solana stub_client 3 4 100000000)) =
       [([NewTransferInstruction 100000000 (PublicKey stub_solana 3) 4], 7,
         [TransactionPayer (PublicKey stub_solana 3)])]"
proof -
  have h: "GetRecentBlockhash stub_client CommitmentFinalized = Inr 7"
    by (simp add: stub_facts)
  note main = main_amount_is_100000000 [of stub_client stub_solana 3 4]
  from main have a: "main_amount = Some 100000000"
    by blast
  from main a h show ?thesis by blast
qed
subsection \<open>Deposit monitoring\<close>

text \<open>
  C3 as stated does not hold: the events that \<open>monitorDeposits\<close> emits carry the account and
  the balance and nothing else. Two notifications with the same balance produce two
  identical events, so no sequence number distinguishes them.
\<close>

theorem monitor_updates_without_sequence_number:
  "account_updates
     (trace (monitorDeposits exact_float
        (stub_ws [Inr \<lparr>Lamports = 1000000000\<rparr>, Inr \<lparr>Lamports = 1000000000\<rparr>]) 103
        :: stub_run)) = [(103, 1), (103, 1)]
   \<and> \<not> distinct (account_updates
     (trace (monitorDeposits exact_float
        (stub_ws [Inr \<lparr>Lamports = 1000000000\<rparr>, Inr \<lparr>Lamports = 1000000000\<rparr>]) 103
        :: stub_run)))"
  by (simp add: monitorDeposits_subscribed stub_facts Let_def exact_float_scenarios)

text \<open>
  C3, amended. For every sequence of N notifications that the subscription delivers for one
  account, \<open>monitorDeposits\<close> emits exactly N balance updates, in the order in which the
  notifications were received, each carrying the account and the balance that lines 105-106
  compute from its notification, the binary64 quotient \<open>float64(lamports) / LamportsPerSOL\<close>
  (which need not determine the lamports), and no sequence number; no receive error is
  reported. This holds however the two floating-point operations round.
\<close>

theorem monitor_updates_in_arrival_order:
  assumes "AccountSubscribe wsClient account CommitmentFinalized = Inr (map Inr notifications)"
  shows "account_updates (trace (monitorDeposits go wsClient account)) =
           map (\<lambda>n. (account, float64_div go (float64 go (Lamports n)) LamportsPerSOL))
             notifications
       \<and> length (account_updates (trace (monitorDeposits go wsClient account))) =
           length notifications
       \<and> recv_reports (trace (monitorDeposits go wsClient account)) = []"
  by (simp add: monitorDeposits_subscribed [OF assms] recv_loop_updates recv_loop_reports
        delivered_map_Inr failed_map_Inr)

theorem monitor_updates_in_arrival_order_witness:
  "AccountSubscribe
       (stub_ws [Inr \<lparr>Lamports = 2000000000\<rparr>, Inr \<lparr>Lamports = 500000000\<rparr>,
                 Inr \<lparr>Lamports = 1000000000\<rparr>])
       103 CommitmentFinalized =
     Inr (map Inr [\<lparr>Lamports = 2000000000\<rparr>, \<lparr>Lamports = 500000000\<rparr>,
                   \<lparr>Lamports = 1000000000\<rparr>])
   \<and> account_updates (trace (monitorDeposits exact_float
       (stub_ws [Inr \<lparr>Lamports = 2000000000\<rparr>, Inr \<lparr>Lamports = 500000000\<rparr>,
                 Inr \<lparr>Lamports = 1000000000\<rparr>]) 103
         :: stub_run)) = [(103, 2), (103, 1 / 2), (103, 1)]"
proof -
  have h: "AccountSubscribe
             (stub_ws [Inr \<lparr>Lamports = 2000000000\<rparr>, Inr \<lparr>Lamports = 500000000\<rparr>,
                       Inr \<lparr>Lamports = 1000000000\<rparr>])
             103 CommitmentFinalized =
           Inr (map Inr [\<lparr>Lamports = 2000000000\<rparr>, \<lparr>Lamports = 500000000\<rparr>,
                         \<lparr>Lamports = 1000000000\<rparr>])"
    by (simp add: stub_facts)
  have r: "account_updates (trace (monitorDeposits exact_float
       (stub_ws [Inr \<lparr>Lamports = 2000000000\<rparr>, Inr \<lparr>Lamports = 500000000\<rparr>,
                 Inr \<lparr>Lamports = 1000000000\<rparr>]) 103
         :: stub_run)) =
       map (\<lambda>n. (103, float64_div exact_float (float64 exact_float (Lamports n)) LamportsPerSOL))
         [\<lparr>Lamports = 2000000000\<rparr>, \<lparr>Lamports = 500000000\<rparr>, \<lparr>Lamports = 1000000000\<rparr>]"
    using monitor_updates_in_arrival_order [OF h] by (rule conjunct1)
  have "map (\<lambda>n. (103, float64_div exact_float (float64 exact_float (Lamports n)) LamportsPerSOL))
          [\<lparr>Lamports = 2000000000\<rparr>, \<lparr>Lamports = 500000000\<rparr>, \<lparr>Lamports = 1000000000\<rparr>] =
          [(103 :: nat, 2), (103, 1 / 2), (103, 1)]"
    by (simp add: exact_float_scenarios)
  with r h show ?thesis by (simp only: simp_thms)
qed




text \<open>
  C8 as stated does not hold: \<open>monitorDeposits\<close> has no way to be stopped. The only thing
  that reaches the suspended loop is what \<open>Recv\<close> returns, and when \<open>Recv\<close> returns an error,
  as it does when the subscription is closed or cancelled from outside, the loop logs it and
  calls \<open>Recv\<close> again: the function has not returned and has not called \<open>Unsubscribe\<close>.
\<close>

theorem monitor_keeps_receiving_after_errors:
  "outcome (monitorDeposits exact_float (stub_ws [Inl SubscriptionTransportError]) 103
        :: stub_run) = Suspended
   \<and> count_list (trace (monitorDeposits exact_float (stub_ws [Inl SubscriptionTransportError]) 103
        :: stub_run)) CallUnsubscribe = 0
   \<and> last (trace (monitorDeposits exact_float (stub_ws [Inl SubscriptionTransportError]) 103
        :: stub_run)) = CallRecv"
  by (simp add: monitorDeposits_subscribed stub_facts)

text \<open>
  C8, amended. \<open>monitorDeposits\<close> has no stop or cancellation path: for every websocket
  client and every sequence of results and errors that its \<open>Recv\<close> calls return, the
  function does not return, and the deferred \<open>Unsubscribe\<close> is never executed (the
  subscription handle is released zero times by this function).
\<close>

theorem monitor_never_returns:
  "outcome (monitorDeposits go wsClient account) \<noteq> Returned
   \<and> CallUnsubscribe \<notin> set (trace (monitorDeposits go wsClient account))"
  by (cases "AccountSubscribe wsClient account CommitmentFinalized")
     (simp_all add: monitorDeposits_subscribed monitorDeposits_refused
        recv_loop_outcome recv_loop_Unsubscribe)

theorem monitor_never_returns_witness:
  "outcome (monitorDeposits exact_float
      (stub_ws [Inr \<lparr>Lamports = 1000000000\<rparr>, Inl SubscriptionTransportError]) 103
      :: stub_run) \<noteq> Returned
   \<and> CallUnsubscribe \<notin> set (trace (monitorDeposits exact_float
        (stub_ws [Inr \<lparr>Lamports = 1000000000\<rparr>, Inl SubscriptionTransportError]) 103
        :: stub_run))"
  by (rule monitor_never_returns)

end
